theory Spec2Isabelle
  imports Complex_Main "HOL-Library.Log_Nat"
begin

section \<open>EasyBackup: time conditions, backup tasks and the application loop\<close>

text \<open>
  A shallow embedding of \<^verbatim>\<open>EasyBackup.py\<close>. Python exceptions are values of the
  type \<open>exn\<close>; a computation that may raise returns \<open>exn + 'a\<close> (\<open>Inl\<close> the
  exception) when it has no effect, and a pair of an optional exception and the state
  reached when it has effects, since what was done before the raise stays done.
\<close>

subsection \<open>Exceptions\<close>

datatype exn =
    ZeroDivisionError
  | ParseError
  | OSError string

subsection \<open>Wall-clock time\<close>

text \<open>
  A naive \<^verbatim>\<open>datetime.datetime\<close>. The calendar date is kept as its proleptic
  Gregorian ordinal (\<^verbatim>\<open>toordinal()\<close>), which is all that subtraction uses.
\<close>

record datetime =
  ordinal :: int
  hour :: int
  minute :: int
  second :: int
  microsecond :: int

text \<open>
  \<^verbatim>\<open>now - begin_dt\<close> is a \<^verbatim>\<open>timedelta\<close>: an exact, signed count of
  microseconds, built from the difference of the ordinals, of the seconds within the day
  and of the microseconds.
\<close>

type_synonym timedelta = int

definition datetime_sub :: "datetime \<Rightarrow> datetime \<Rightarrow> timedelta" where
  "datetime_sub a b =
     ((ordinal a - ordinal b) * 86400
       + ((second a + minute a * 60 + hour a * 3600)
          - (second b + minute b * 60 + hour b * 3600))) * 1000000
     + (microsecond a - microsecond b)"

text \<open>
  Python floats are IEEE 754 doubles. A double is modelled by the real number it
  denotes, and an operation by the exact result rounded to the nearest number with a
  significand of 53 bits, ties going to the even significand. \<open>binary_exponent x\<close> is
  the integer \<open>e\<close> with \<open>2 ^ e \<le> \<bar>x\<bar> < 2 ^ (e + 1)\<close>, so that the doubles around \<open>x\<close>
  are the multiples of \<open>2 ^ (e - 52)\<close>. The range of the exponent is not limited: the
  quotients computed from a \<^verbatim>\<open>timedelta\<close> are zero or lie between \<open>10 ^ -8\<close> and
  \<open>10 ^ 12\<close> in absolute value, far inside the range of the normal doubles.
\<close>

definition round_half_even :: "real \<Rightarrow> int" where
  "round_half_even x =
     (let f = \<lfloor>x\<rfloor>; d = x - of_int f
      in if d < 1 / 2 then f else if 1 / 2 < d then f + 1 else if even f then f else f + 1)"

definition binary_exponent :: "real \<Rightarrow> int" where
  "binary_exponent x =
     (if 1 \<le> \<bar>x\<bar> then bitlen \<lfloor>\<bar>x\<bar>\<rfloor> - 1 else - bitlen (\<lceil>1 / \<bar>x\<bar>\<rceil> - 1))"

definition round_double :: "real \<Rightarrow> real" where
  "round_double x =
     (if x = 0 then 0
      else let u = 2 powi (binary_exponent x - 52)
           in of_int (round_half_even (x / u)) * u)"

text \<open>
  \<^verbatim>\<open>timedelta.total_seconds()\<close> is the count of microseconds divided by
  \<^verbatim>\<open>10**6\<close>, a division of two integers that gives the double nearest to the
  quotient.
\<close>

definition total_seconds :: "timedelta \<Rightarrow> real" where
  "total_seconds d = round_double (real_of_int d / 1000000)"

text \<open>\<^verbatim>\<open>int(x)\<close> on a float drops the fractional part: it rounds towards zero.\<close>

definition py_int :: "real \<Rightarrow> int" where
  "py_int x = (if 0 \<le> x then \<lfloor>x\<rfloor> else \<lceil>x\<rceil>)"

text \<open>
  \<^verbatim>\<open>a % b\<close> on Python integers raises on a zero divisor; otherwise the result has
  the sign of the divisor, as \<open>mod\<close> on \<open>int\<close> has.
\<close>

definition py_mod :: "int \<Rightarrow> int \<Rightarrow> exn + int" where
  "py_mod a b = (if b = 0 then Inl ZeroDivisionError else Inr (a mod b))"

subsection \<open>Time conditions\<close>

text \<open>
  \<^verbatim>\<open>every_minutes(nb_minutes)\<close> and \<^verbatim>\<open>specific_time(hour, minute)\<close> return
  closures over their parameters. Each closure takes \<^verbatim>\<open>begin_dt\<close> and starts by
  reading the clock once; that reading is the last argument here, and the caller
  (\<open>TimeConditionedBackup_run_backup\<close> below) does the read.
\<close>

type_synonym time_condition_lambda = "datetime \<Rightarrow> datetime \<Rightarrow> exn + bool"

text \<open>
  \<^verbatim>\<open>int(delta.total_seconds() / 60)\<close>: the division of the double by 60 is
  rounded in its turn.
\<close>

definition elapsed_minutes :: "datetime \<Rightarrow> datetime \<Rightarrow> int" where
  "elapsed_minutes begin_dt now =
     py_int (round_double (total_seconds (datetime_sub now begin_dt) / 60))"

definition every_minutes :: "int \<Rightarrow> time_condition_lambda" where
  "every_minutes nb_minutes begin_dt now =
     (case py_mod (elapsed_minutes begin_dt now) nb_minutes of
        Inl e \<Rightarrow> Inl e
      | Inr r \<Rightarrow> Inr (r = 0))"

definition specific_time :: "int \<Rightarrow> int \<Rightarrow> time_condition_lambda" where
  "specific_time h m begin_dt now = Inr (hour now = h \<and> minute now = m)"

subsection \<open>The filesystem, the log and the clock\<close>

text \<open>
  The platform functions the program calls (\<^verbatim>\<open>os.path.exists\<close>,
  \<^verbatim>\<open>os.path.isdir\<close>, \<^verbatim>\<open>shutil.rmtree\<close>, \<^verbatim>\<open>shutil.copytree\<close>,
  \<^verbatim>\<open>shutil.copy2\<close>) are parameters, over any type \<open>'fs\<close> of filesystem states.
  The three that write may raise, and return the filesystem they leave behind.
\<close>

record 'fs fsops =
  exists :: "'fs \<Rightarrow> string \<Rightarrow> bool"
  isdir :: "'fs \<Rightarrow> string \<Rightarrow> bool"
  rmtree :: "'fs \<Rightarrow> string \<Rightarrow> exn option \<times> 'fs"
  copytree :: "'fs \<Rightarrow> string \<Rightarrow> string \<Rightarrow> exn option \<times> 'fs"
  copy2 :: "'fs \<Rightarrow> string \<Rightarrow> string \<Rightarrow> exn option \<times> 'fs"

datatype level = DEBUG | INFO | ERROR

text \<open>
  Everything outside the program that it reads or writes: the filesystem, the records
  sent to the logger, how many times \<^verbatim>\<open>datetime.datetime.now()\<close> has been called,
  and the seconds spent in \<^verbatim>\<open>time.sleep\<close>. The wall clock is a function
  \<open>clock\<close> from the number of the call to the time it returns; nothing is assumed of
  it, so it may stand still or run backwards.
\<close>

record 'fs world =
  fs :: 'fs
  logs :: "(level \<times> string) list"
  clock_reads :: nat
  slept :: nat

type_synonym clock = "nat \<Rightarrow> datetime"

definition log_event :: "level \<Rightarrow> string \<Rightarrow> 'fs world \<Rightarrow> 'fs world" where
  "log_event l msg w = w\<lparr>logs := logs w @ [(l, msg)]\<rparr>"

definition datetime_now :: "clock \<Rightarrow> 'fs world \<Rightarrow> datetime \<times> 'fs world" where
  "datetime_now clock w = (clock (clock_reads w), w\<lparr>clock_reads := Suc (clock_reads w)\<rparr>)"

definition time_sleep :: "nat \<Rightarrow> 'fs world \<Rightarrow> 'fs world" where
  "time_sleep n w = w\<lparr>slept := slept w + n\<rparr>"

definition fs_call :: "('fs \<Rightarrow> exn option \<times> 'fs) \<Rightarrow> 'fs world \<Rightarrow> exn option \<times> 'fs world" where
  "fs_call prim w = (case prim (fs w) of (e, f) \<Rightarrow> (e, w\<lparr>fs := f\<rparr>))"

text \<open>Sequencing: a raised exception skips what follows.\<close>

definition and_then :: "exn option \<times> 's \<Rightarrow> ('s \<Rightarrow> exn option \<times> 's) \<Rightarrow> exn option \<times> 's" where
  "and_then r f = (case r of (None, s) \<Rightarrow> f s | (Some e, s) \<Rightarrow> (Some e, s))"

subsection \<open>Backup tasks\<close>

text \<open>
  \<^verbatim>\<open>BackupTask.backup_file\<close> only calls the \<^verbatim>\<open>_run_backup\<close> of the object's
  class, so each class is modelled by its \<^verbatim>\<open>_run_backup\<close>.
\<close>

record direct_backup_task =
  source :: string
  destination :: string

definition DirectBackupTask_run_backup ::
  "'fs fsops \<Rightarrow> direct_backup_task \<Rightarrow> 'fs world \<Rightarrow> exn option \<times> 'fs world" where
  "DirectBackupTask_run_backup ops t w =
     (if exists ops (fs w) (source t) then
        let w = log_event INFO (''Backuping '' @ source t @ '' to '' @ destination t) w in
        if isdir ops (fs w) (source t) then
          let w = log_event DEBUG (source t @ '' is a directory'') w in
          and_then
            (if exists ops (fs w) (destination t) then
               let w = log_event DEBUG
                         (source t @ '' destination ('' @ destination t @ '') exists removing'') w in
               and_then (fs_call (\<lambda>f. rmtree ops f (destination t)) w)
                 (\<lambda>w. (None, log_event DEBUG (''Destination '' @ destination t @ '' removed'') w))
             else (None, w))
            (\<lambda>w. let w = log_event DEBUG
                            (''Copying '' @ source t @ '' directory to '' @ destination t) w in
                  and_then (fs_call (\<lambda>f. copytree ops f (source t) (destination t)) w)
                    (\<lambda>w. (None, log_event DEBUG
                                   (''Copy of '' @ source t @ '' to '' @ destination t @ '' done'') w)))
        else
          let w = log_event DEBUG (''Copying '' @ source t @ '' file to '' @ destination t) w in
          and_then (fs_call (\<lambda>f. copy2 ops f (source t) (destination t)) w)
            (\<lambda>w. (None, log_event DEBUG
                           (''Copy of '' @ source t @ '' to '' @ destination t @ '' done'') w))
      else
        (None, log_event ERROR
                 (''Cannot backup '' @ source t @ '' to '' @ destination t
                    @ '' because source does not exist'') w))"

record time_conditioned_backup =
  creation_date :: datetime
  backup_task :: direct_backup_task
  time_condition :: time_condition_lambda

definition TimeConditionedBackup_init ::
  "clock \<Rightarrow> string \<Rightarrow> string \<Rightarrow> time_condition_lambda \<Rightarrow> 'fs world
     \<Rightarrow> time_conditioned_backup \<times> 'fs world" where
  "TimeConditionedBackup_init clock src dst time_condition_lambda w =
     (case datetime_now clock w of
        (now, w') \<Rightarrow>
          (\<lparr>creation_date = now,
            backup_task = \<lparr>source = src, destination = dst\<rparr>,
            time_condition = time_condition_lambda\<rparr>, w'))"

definition TimeConditionedBackup_run_backup ::
  "'fs fsops \<Rightarrow> clock \<Rightarrow> time_conditioned_backup \<Rightarrow> 'fs world \<Rightarrow> exn option \<times> 'fs world" where
  "TimeConditionedBackup_run_backup ops clock t w =
     (case datetime_now clock w of
        (now, w') \<Rightarrow>
          (case time_condition t (creation_date t) now of
             Inl e \<Rightarrow> (Some e, w')
           | Inr matches \<Rightarrow>
               if matches then DirectBackupTask_run_backup ops (backup_task t) w'
               else (None, w')))"

subsection \<open>The parse tree\<close>

text \<open>
  The grammar file \<^verbatim>\<open>backup_dsl.ebnf\<close> is not among the sources. The tree that
  \<^verbatim>\<open>parser.parse\<close> returns is typed after the way \<^verbatim>\<open>_parse_run\<close> reads
  it: a list of instructions, each with two path tokens and an optional third child,
  whose rule names are the constructors below. A number token is given by the integer
  that \<^verbatim>\<open>int(token.value)\<close> makes of it: the conversion, which the source does
  inside the loop, is taken to succeed on every number token of the grammar. The parser
  itself is a parameter.
\<close>

datatype time_data =
    every_nb_minutes int
  | every_nb_hours int
  | every_hour
  | every_minute

datatype time_type_data =
    avg_time_expresion time_data
  | precise_time_expression int int

datatype inst = Inst string string "time_type_data option"

type_synonym tree = "inst list"

type_synonym parser = "string \<Rightarrow> exn + tree"

text \<open>
  \<^verbatim>\<open>str.strip()\<close>: drops the leading and trailing whitespace. A character is a
  code point below 256; the whitespace of Python among them is listed.
\<close>

definition is_space :: "char \<Rightarrow> bool" where
  "is_space c = (c \<in> set [CHR '' '', CHR 0x09, CHR 0x0A, CHR 0x0B, CHR 0x0C, CHR 0x0D,
                          CHR 0x1C, CHR 0x1D, CHR 0x1E, CHR 0x1F, CHR 0x85, CHR 0xA0])"

definition strip :: "string \<Rightarrow> string" where
  "strip s = rev (dropWhile is_space (rev (dropWhile is_space s)))"

subsection \<open>The application\<close>

record app =
  program :: string
  conditional_backups :: "time_conditioned_backup list"

text \<open>
  \<^verbatim>\<open>backup_task = TimeConditionedBackup(...)\<close> followed by
  \<^verbatim>\<open>self._conditional_backups.append(backup_task)\<close>.
\<close>

definition append_conditional ::
  "clock \<Rightarrow> string \<Rightarrow> string \<Rightarrow> time_condition_lambda \<Rightarrow> app \<Rightarrow> 'fs world
     \<Rightarrow> exn option \<times> app \<times> 'fs world" where
  "append_conditional clock src dst c a w =
     (case TimeConditionedBackup_init clock src dst c w of
        (task, w') \<Rightarrow>
          (None, a\<lparr>conditional_backups := conditional_backups a @ [task]\<rparr>, w'))"

text \<open>The body of the loop \<^verbatim>\<open>for inst in tree.children\<close>.\<close>

fun parse_run_inst ::
  "'fs fsops \<Rightarrow> clock \<Rightarrow> inst \<Rightarrow> app \<Rightarrow> 'fs world \<Rightarrow> exn option \<times> app \<times> 'fs world" where
  "parse_run_inst ops clock (Inst c0 c1 c2) a w =
     (let src = strip c0; dst = strip c1 in
      case c2 of
        None \<Rightarrow>
          (case DirectBackupTask_run_backup ops \<lparr>source = src, destination = dst\<rparr>
                  (log_event INFO ''Running backup task'' w) of
             (e, w') \<Rightarrow> (e, a, w'))
      | Some time_type_data \<Rightarrow>
          (let w = log_event INFO ''Registering backup task with time condition'' w in
           case time_type_data of
             avg_time_expresion td \<Rightarrow>
               (case td of
                  every_nb_minutes nb_minutes \<Rightarrow>
                    append_conditional clock src dst (every_minutes nb_minutes) a w
                | every_nb_hours nb_hours \<Rightarrow>
                    append_conditional clock src dst (every_minutes (nb_hours * 60)) a w
                | every_hour \<Rightarrow>
                    append_conditional clock src dst (every_minutes 60) a w
                | every_minute \<Rightarrow>
                    append_conditional clock src dst (every_minutes 1) a w)
           | precise_time_expression time_data_hour time_data_minute \<Rightarrow>
               append_conditional clock src dst
                 (specific_time time_data_hour time_data_minute) a w))"

fun parse_run_loop ::
  "'fs fsops \<Rightarrow> clock \<Rightarrow> tree \<Rightarrow> app \<Rightarrow> 'fs world \<Rightarrow> exn option \<times> app \<times> 'fs world" where
  "parse_run_loop ops clock [] a w = (None, a, w)"
| "parse_run_loop ops clock (i # rest) a w =
     (case parse_run_inst ops clock i a w of
        (Some e, a', w') \<Rightarrow> (Some e, a', w')
      | (None, a', w') \<Rightarrow> parse_run_loop ops clock rest a' w')"

text \<open>
  \<^verbatim>\<open>App._parse_run\<close>: the whole text is parsed first; an exception of the parser
  leaves before the loop is entered.
\<close>

definition App_parse_run ::
  "'fs fsops \<Rightarrow> clock \<Rightarrow> parser \<Rightarrow> app \<Rightarrow> 'fs world \<Rightarrow> exn option \<times> app \<times> 'fs world" where
  "App_parse_run ops clock parse a w =
     (case parse (program a) of
        Inl e \<Rightarrow> (Some e, a, w)
      | Inr t \<Rightarrow> parse_run_loop ops clock t a w)"

text \<open>
  \<^verbatim>\<open>App.__init__\<close>, from the text of the program file (reading the file is not
  modelled).
\<close>

definition App_init ::
  "'fs fsops \<Rightarrow> clock \<Rightarrow> parser \<Rightarrow> string \<Rightarrow> 'fs world \<Rightarrow> exn option \<times> app \<times> 'fs world" where
  "App_init ops clock parse text w =
     App_parse_run ops clock parse \<lparr>program = text, conditional_backups = []\<rparr> w"

text \<open>One pass of \<^verbatim>\<open>for backup_task in self._conditional_backups\<close>.\<close>

fun tick ::
  "'fs fsops \<Rightarrow> clock \<Rightarrow> time_conditioned_backup list \<Rightarrow> 'fs world \<Rightarrow> exn option \<times> 'fs world" where
  "tick ops clock [] w = (None, w)"
| "tick ops clock (t # ts) w =
     (case TimeConditionedBackup_run_backup ops clock t w of
        (Some e, w') \<Rightarrow> (Some e, w')
      | (None, w') \<Rightarrow> tick ops clock ts w')"

text \<open>
  \<^verbatim>\<open>while True\<close> has no exit but an exception. The loop is given fuel, one unit
  per pass; \<open>None\<close> is a loop that is still running when the fuel is spent.
\<close>

fun poll_loop ::
  "nat \<Rightarrow> 'fs fsops \<Rightarrow> clock \<Rightarrow> time_conditioned_backup list \<Rightarrow> 'fs world
     \<Rightarrow> (exn \<times> 'fs world) option" where
  "poll_loop 0 ops clock ts w = None"
| "poll_loop (Suc n) ops clock ts w =
     (case tick ops clock ts w of
        (Some e, w') \<Rightarrow> Some (e, w')
      | (None, w') \<Rightarrow>
          poll_loop n ops clock ts (time_sleep 60 (log_event INFO ''Sleeping for a minute'' w')))"

text \<open>
  \<^verbatim>\<open>App.run\<close>: \<open>Some (None, w)\<close> is a normal return, \<open>Some (Some e, w)\<close> an
  exception that leaves \<^verbatim>\<open>run\<close>.
\<close>

definition App_run ::
  "nat \<Rightarrow> 'fs fsops \<Rightarrow> clock \<Rightarrow> app \<Rightarrow> 'fs world \<Rightarrow> (exn option \<times> 'fs world) option" where
  "App_run fuel ops clock a w =
     (if length (conditional_backups a) > 0 then
        (case poll_loop fuel ops clock (conditional_backups a) w of
           None \<Rightarrow> None
         | Some (e, w') \<Rightarrow> Some (Some e, w'))
      else Some (None, w))"

text \<open>The script without \<^verbatim>\<open>--daemonize\<close>: \<^verbatim>\<open>app = App(file); app.run()\<close>.\<close>

definition main ::
  "nat \<Rightarrow> 'fs fsops \<Rightarrow> clock \<Rightarrow> parser \<Rightarrow> string \<Rightarrow> 'fs world \<Rightarrow> (exn option \<times> 'fs world) option" where
  "main fuel ops clock parse text w =
     (case App_init ops clock parse text w of
        (Some e, a, w') \<Rightarrow> Some (Some e, w')
      | (None, a, w') \<Rightarrow> App_run fuel ops clock a w')"

subsection \<open>The grammar\<close>

text \<open>
  Modelled from the spec: the grammar file \<^verbatim>\<open>backup_dsl.ebnf\<close> that
  \<^verbatim>\<open>Lark\<close> is built from is missing from the sources. \<open>dsl_parse\<close> follows the
  informal grammar of the specification,
  \<^verbatim>\<open>statement := "backup" PATH "to" PATH [":" time_expr]\<close>,
  \<^verbatim>\<open>time_expr := "every" (INT "minutes" | INT "hours" | "hour" | "minute") | "at" INT ":" INT\<close>,
  over tokens separated by whitespace, a colon being a token of its own. The theorems
  about the application hold for any parser; this one is used to run the application on
  program texts.
\<close>

fun tokens :: "string \<Rightarrow> string \<Rightarrow> string list" where
  "tokens acc [] = (if acc = [] then [] else [rev acc])"
| "tokens acc (c # cs) =
     (if is_space c then (if acc = [] then [] else [rev acc]) @ tokens [] cs
      else if c = CHR '':'' then (if acc = [] then [] else [rev acc]) @ ['':''] @ tokens [] cs
      else tokens (c # acc) cs)"

definition is_digit :: "char \<Rightarrow> bool" where
  "is_digit c = (c \<in> set ''0123456789'')"

definition digit_value :: "char \<Rightarrow> int" where
  "digit_value c = int (length (takeWhile (\<lambda>d. d \<noteq> c) ''0123456789''))"

definition is_INT :: "string \<Rightarrow> bool" where
  "is_INT s = (s \<noteq> [] \<and> list_all is_digit s)"

definition INT_value :: "string \<Rightarrow> int" where
  "INT_value s = foldl (\<lambda>n c. 10 * n + digit_value c) 0 s"

text \<open>A time expression at the head of the tokens, with the number of tokens it takes.\<close>

definition dsl_time_expr :: "string list \<Rightarrow> (time_type_data \<times> nat) option" where
  "dsl_time_expr toks =
     (case toks of
        k # x # rest \<Rightarrow>
          if k = ''every'' \<and> x = ''hour'' then Some (avg_time_expresion every_hour, 2)
          else if k = ''every'' \<and> x = ''minute'' then Some (avg_time_expresion every_minute, 2)
          else
            (case rest of
               y # rest' \<Rightarrow>
                 if k = ''every'' \<and> is_INT x \<and> y = ''minutes''
                 then Some (avg_time_expresion (every_nb_minutes (INT_value x)), 3)
                 else if k = ''every'' \<and> is_INT x \<and> y = ''hours''
                 then Some (avg_time_expresion (every_nb_hours (INT_value x)), 3)
                 else
                   (case rest' of
                      z # _ \<Rightarrow>
                        if k = ''at'' \<and> is_INT x \<and> y = '':'' \<and> is_INT z
                        then Some (precise_time_expression (INT_value x) (INT_value z), 4)
                        else None
                    | [] \<Rightarrow> None)
             | [] \<Rightarrow> None)
      | _ \<Rightarrow> None)"

fun dsl_statements :: "string list \<Rightarrow> exn + tree" where
  "dsl_statements [] = Inr []"
| "dsl_statements (kw # p1 # to # p2 # rest) =
     (if kw = ''backup'' \<and> to = ''to'' \<and> p1 \<noteq> '':'' \<and> p2 \<noteq> '':'' then
        (case rest of
           [] \<Rightarrow> Inr [Inst p1 p2 None]
         | c # rest' \<Rightarrow>
             if c = '':'' then
               (case dsl_time_expr rest' of
                  None \<Rightarrow> Inl ParseError
                | Some (t, k) \<Rightarrow>
                    (case dsl_statements (drop k rest') of
                       Inl e \<Rightarrow> Inl e
                     | Inr is \<Rightarrow> Inr (Inst p1 p2 (Some t) # is)))
             else
               (case dsl_statements rest of
                  Inl e \<Rightarrow> Inl e
                | Inr is \<Rightarrow> Inr (Inst p1 p2 None # is)))
      else Inl ParseError)"
| "dsl_statements _ = Inl ParseError"

definition dsl_parse :: parser where
  "dsl_parse text = dsl_statements (tokens [] text)"

subsection \<open>A small filesystem\<close>

text \<open>
  An in-memory filesystem on which the definitions can be evaluated: a table from names
  to entries, a directory holding files only. As \<^verbatim>\<open>shutil\<close> does, \<open>rmtree\<close>
  refuses a path that is not a directory, \<open>copytree\<close> a destination that exists and
  \<open>copy2\<close> a copy of a file onto itself or into a directory that is missing; a copy
  to a directory puts the file in it under its own name. The files in a directory are
  not entries of the table: they cannot be named as a source.
\<close>

datatype entry = RegularFile string | Directory "(string \<times> string) list"

type_synonym toy_fs = "(string \<times> entry) list"

definition toy_remove :: "string \<Rightarrow> toy_fs \<Rightarrow> toy_fs" where
  "toy_remove p f = filter (\<lambda>(q, _). q \<noteq> p) f"

definition toy_rmtree :: "toy_fs \<Rightarrow> string \<Rightarrow> exn option \<times> toy_fs" where
  "toy_rmtree f p =
     (case map_of f p of
        Some (Directory _) \<Rightarrow> (None, toy_remove p f)
      | Some (RegularFile _) \<Rightarrow> (Some (OSError ''NotADirectoryError''), f)
      | None \<Rightarrow> (Some (OSError ''FileNotFoundError''), f))"

definition toy_copytree :: "toy_fs \<Rightarrow> string \<Rightarrow> string \<Rightarrow> exn option \<times> toy_fs" where
  "toy_copytree f s d =
     (case map_of f s of
        Some (Directory c) \<Rightarrow>
          (case map_of f d of
             None \<Rightarrow> (None, (d, Directory c) # f)
           | Some _ \<Rightarrow> (Some (OSError ''FileExistsError''), f))
      | Some (RegularFile _) \<Rightarrow> (Some (OSError ''NotADirectoryError''), f)
      | None \<Rightarrow> (Some (OSError ''FileNotFoundError''), f))"

definition basename :: "string \<Rightarrow> string" where
  "basename p = rev (takeWhile (\<lambda>c. c \<noteq> CHR ''/'') (rev p))"

definition dirname :: "string \<Rightarrow> string" where
  "dirname p = rev (drop 1 (dropWhile (\<lambda>c. c \<noteq> CHR ''/'') (rev p)))"

definition toy_put_in :: "toy_fs \<Rightarrow> string \<Rightarrow> (string \<times> string) list \<Rightarrow> string \<Rightarrow> string \<Rightarrow> toy_fs" where
  "toy_put_in f dir files name c =
     (dir, Directory ((name, c) # filter (\<lambda>(n, _). n \<noteq> name) files)) # toy_remove dir f"

definition toy_copy2 :: "toy_fs \<Rightarrow> string \<Rightarrow> string \<Rightarrow> exn option \<times> toy_fs" where
  "toy_copy2 f s d =
     (case map_of f s of
        Some (RegularFile c) \<Rightarrow>
          (case map_of f d of
             Some (Directory files) \<Rightarrow> (None, toy_put_in f d files (basename s) c)
           | Some (RegularFile _) \<Rightarrow>
               if s = d then (Some (OSError ''SameFileError''), f)
               else (None, (d, RegularFile c) # toy_remove d f)
           | None \<Rightarrow>
               if CHR ''/'' \<in> set d then
                 (case map_of f (dirname d) of
                    Some (Directory files) \<Rightarrow> (None, toy_put_in f (dirname d) files (basename d) c)
                  | _ \<Rightarrow> (Some (OSError ''FileNotFoundError''), f))
               else (None, (d, RegularFile c) # f))
      | Some (Directory _) \<Rightarrow> (Some (OSError ''IsADirectoryError''), f)
      | None \<Rightarrow> (Some (OSError ''FileNotFoundError''), f))"

definition toy_ops :: "toy_fs fsops" where
  "toy_ops =
     \<lparr>exists = (\<lambda>f p. map_of f p \<noteq> None),
      isdir = (\<lambda>f p. case map_of f p of Some (Directory _) \<Rightarrow> True | _ \<Rightarrow> False),
      rmtree = toy_rmtree,
      copytree = toy_copytree,
      copy2 = toy_copy2\<rparr>"

definition new_world :: "'fs \<Rightarrow> 'fs world" where
  "new_world f = \<lparr>fs = f, logs = [], clock_reads = 0, slept = 0\<rparr>"

definition sample_fs :: toy_fs where
  "sample_fs =
     [(''d'', Directory [(''x'', ''1'')]), (''old'', Directory [(''y'', ''2'')]),
      (''f'', RegularFile ''F''), (''a'', RegularFile ''A'')]"

definition sample_clock :: clock where
  "sample_clock n = \<lparr>ordinal = 738000, hour = 17, minute = 22, second = int n, microsecond = 0\<rparr>"

text \<open>Program texts, with one statement on each line.\<close>

definition program_d_f_a_b :: string where
  "program_d_f_a_b = ''backup d to f'' @ [CHR 0x0A] @ ''backup a to b''"

definition program_a_b_zz_e :: string where
  "program_a_b_zz_e = ''backup a to b'' @ [CHR 0x0A] @ ''backup zz to e''"

definition program_missing_to :: string where
  "program_missing_to = ''backup a to b'' @ [CHR 0x0A] @ ''backup c d''"

definition program_every_minute :: string where
  "program_every_minute =
     ''backup d to f : every minute'' @ [CHR 0x0A] @ ''backup a to b : every minute''"

text \<open>A clock that gains one minute at every reading.\<close>

definition minute_clock :: clock where
  "minute_clock n = \<lparr>ordinal = 738000, hour = 17, minute = 22 + int n, second = 0, microsecond = 0\<rparr>"

text \<open>
  The mirror of \<open>d\<close> onto the regular file \<open>f\<close>, due at 17:24, and the copy of \<open>a\<close>
  to \<open>b\<close> every minute, both created at 17:22.
\<close>

definition sample_task_d_f_at :: time_conditioned_backup where
  "sample_task_d_f_at =
     \<lparr>creation_date = minute_clock 0,
      backup_task = \<lparr>source = ''d'', destination = ''f''\<rparr>,
      time_condition = specific_time 17 24\<rparr>"

definition sample_task_a_b_minutely :: time_conditioned_backup where
  "sample_task_a_b_minutely =
     \<lparr>creation_date = minute_clock 0,
      backup_task = \<lparr>source = ''a'', destination = ''b''\<rparr>,
      time_condition = every_minutes 1\<rparr>"

text \<open>The copy of \<open>a\<close> to \<open>b\<close> every minute, created at the first reading of \<open>sample_clock\<close>.\<close>

definition sample_task_a_b :: time_conditioned_backup where
  "sample_task_a_b =
     \<lparr>creation_date = sample_clock 0,
      backup_task = \<lparr>source = ''a'', destination = ''b''\<rparr>,
      time_condition = every_minutes 1\<rparr>"

subsection \<open>Immediate execution of one instruction\<close>

text \<open>
  The branch \<^verbatim>\<open>len(inst.children) == 2\<close> of the loop of \<^verbatim>\<open>_parse_run\<close>, on its
  own: the instruction is run at once as a \<^verbatim>\<open>DirectBackupTask\<close>.
\<close>

fun unconditional :: "inst \<Rightarrow> bool" where
  "unconditional (Inst c0 c1 c2) = (c2 = None)"

fun run_unconditional :: "'fs fsops \<Rightarrow> inst \<Rightarrow> 'fs world \<Rightarrow> exn option \<times> 'fs world" where
  "run_unconditional ops (Inst c0 c1 c2) w =
     DirectBackupTask_run_backup ops \<lparr>source = strip c0, destination = strip c1\<rparr>
       (log_event INFO ''Running backup task'' w)"


section \<open>Properties\<close>

subsection \<open>Evaluation on sample inputs\<close>

lemmas run_defs =
  DirectBackupTask_run_backup_def TimeConditionedBackup_run_backup_def log_event_def
  datetime_now_def and_then_def fs_call_def time_sleep_def new_world_def
  App_init_def App_parse_run_def App_run_def main_def append_conditional_def
  TimeConditionedBackup_init_def strip_def is_space_def Let_def eval_nat_numeral

lemmas toy_defs =
  toy_ops_def toy_rmtree_def toy_copytree_def toy_copy2_def toy_remove_def toy_put_in_def
  basename_def dirname_def sample_fs_def

lemmas dsl_defs =
  dsl_parse_def dsl_time_expr_def is_INT_def is_digit_def INT_value_def digit_value_def

lemma parse_d_f_a_b:
  "dsl_parse program_d_f_a_b
     = Inr [Inst ''d'' ''f'' None, Inst ''a'' ''b'' None]"
  by (simp add: program_d_f_a_b_def dsl_defs is_space_def)

lemma parse_a_b_zz_e:
  "dsl_parse program_a_b_zz_e
     = Inr [Inst ''a'' ''b'' None, Inst ''zz'' ''e'' None]"
  by (simp add: program_a_b_zz_e_def dsl_defs is_space_def)

lemma parse_missing_to:
  "dsl_parse program_missing_to = Inl ParseError"
  by (simp add: program_missing_to_def dsl_defs is_space_def)

lemma parse_every_minute_twice:
  "dsl_parse program_every_minute
     = Inr [Inst ''d'' ''f'' (Some (avg_time_expresion every_minute)),
            Inst ''a'' ''b'' (Some (avg_time_expresion every_minute))]"
  by (simp add: program_every_minute_def dsl_defs is_space_def)

subsection \<open>Rounding to a double\<close>

lemma round_half_even_error: "\<bar>of_int (round_half_even x) - x\<bar> \<le> 1 / 2"
  unfolding round_half_even_def Let_def by (auto simp: abs_le_iff)

lemma round_half_even_ge: "of_int k \<le> x \<Longrightarrow> k \<le> round_half_even x"
  unfolding round_half_even_def Let_def by (auto simp: le_floor_iff) linarith+

lemma round_half_even_uminus: "round_half_even (- x) = - round_half_even x"
proof (cases "x = of_int \<lfloor>x\<rfloor>")
  case True
  then have "\<lfloor>- x\<rfloor> = - \<lfloor>x\<rfloor>"
    by (metis floor_of_int of_int_minus)
  with True show ?thesis
    unfolding round_half_even_def Let_def by simp
next
  case False
  then have f: "\<lfloor>- x\<rfloor> = - \<lfloor>x\<rfloor> - 1"
    by (simp add: floor_minus ceiling_altdef)
  have "of_int \<lfloor>x\<rfloor> < x"
    using False by (metis less_eq_real_def of_int_floor_le)
  then show ?thesis
    unfolding round_half_even_def Let_def f by auto
qed

text \<open>\<open>binary_exponent x\<close> is the exponent of the power of two at or below \<open>\<bar>x\<bar>\<close>.\<close>

lemma binary_exponent_lower:
  assumes "x \<noteq> 0"
  shows "2 powi (binary_exponent x) \<le> \<bar>x\<bar>"
proof (cases "1 \<le> \<bar>x\<bar>")
  case True
  define n where "n = \<lfloor>\<bar>x\<bar>\<rfloor>"
  have n: "0 < n" using True by (simp add: n_def)
  have b: "1 \<le> bitlen n" using n by (simp add: bitlen_alt_def)
  have "(2::int) ^ nat (bitlen n - 1) \<le> n"
    using bitlen_bounds [OF n] by simp
  then have "(2::real) ^ nat (bitlen n - 1) \<le> of_int n"
    by (metis of_int_le_iff of_int_numeral of_int_power)
  also have "\<dots> \<le> \<bar>x\<bar>" by (simp add: n_def)
  finally show ?thesis
    using True b by (simp add: binary_exponent_def n_def power_int_def)
next
  case False
  define y where "y = 1 / \<bar>x\<bar>"
  define m where "m = \<lceil>y\<rceil> - 1"
  have y: "1 < y" using False assms by (simp add: y_def)
  have m: "0 < m" using y by (simp add: m_def less_ceiling_iff)
  have b: "1 \<le> bitlen m" using m by (simp add: bitlen_alt_def)
  have "m < 2 ^ nat (bitlen m)"
    using bitlen_bounds [OF m] by simp
  then have "\<lceil>y\<rceil> \<le> 2 ^ nat (bitlen m)" by (simp add: m_def)
  then have "y \<le> 2 ^ nat (bitlen m)"
    by (metis ceiling_le_iff of_int_numeral of_int_power)
  then have "1 / 2 ^ nat (bitlen m) \<le> \<bar>x\<bar>"
    using assms y by (simp add: y_def field_simps)
  moreover have "binary_exponent x = - bitlen m"
    using False by (simp add: binary_exponent_def m_def y_def)
  ultimately show ?thesis
    using b by (simp add: power_int_def field_simps)
qed

lemma binary_exponent_upper:
  assumes "x \<noteq> 0"
  shows "\<bar>x\<bar> < 2 powi (binary_exponent x + 1)"
proof (cases "1 \<le> \<bar>x\<bar>")
  case True
  define n where "n = \<lfloor>\<bar>x\<bar>\<rfloor>"
  have n: "0 < n" using True by (simp add: n_def)
  have b: "1 \<le> bitlen n" using n by (simp add: bitlen_alt_def)
  have "n < 2 ^ nat (bitlen n)"
    using bitlen_bounds [OF n] by simp
  then have "n + 1 \<le> 2 ^ nat (bitlen n)" by simp
  then have "of_int (n + 1) \<le> (2::real) ^ nat (bitlen n)"
    by (metis of_int_le_iff of_int_numeral of_int_power)
  moreover have "\<bar>x\<bar> < of_int (n + 1)" by (simp add: n_def)
  ultimately have "\<bar>x\<bar> < (2::real) ^ nat (bitlen n)" by linarith
  then show ?thesis
    using True b by (simp add: binary_exponent_def n_def power_int_def)
next
  case False
  define y where "y = 1 / \<bar>x\<bar>"
  define m where "m = \<lceil>y\<rceil> - 1"
  have y: "1 < y" using False assms by (simp add: y_def)
  have m: "0 < m" using y by (simp add: m_def less_ceiling_iff)
  have b: "1 \<le> bitlen m" using m by (simp add: bitlen_alt_def)
  have "2 ^ nat (bitlen m - 1) \<le> m"
    using bitlen_bounds [OF m] by simp
  then have "(2::real) ^ nat (bitlen m - 1) \<le> of_int m"
    by (metis of_int_le_iff of_int_numeral of_int_power)
  moreover have "of_int m < y" by (simp add: m_def) linarith
  ultimately have "(2::real) ^ nat (bitlen m - 1) < y" by linarith
  then have "\<bar>x\<bar> < 1 / 2 ^ nat (bitlen m - 1)"
    using assms y by (simp add: y_def field_simps)
  moreover have "binary_exponent x + 1 = - (bitlen m - 1)"
    using False by (simp add: binary_exponent_def m_def y_def)
  moreover have "(2::real) powi (- (bitlen m - 1)) = 1 / 2 ^ nat (bitlen m - 1)"
    using b by (simp add: power_int_def field_simps)
  ultimately show ?thesis by simp
qed

lemma round_double_uminus: "round_double (- x) = - round_double x"
  by (simp add: round_double_def binary_exponent_def Let_def round_half_even_uminus)

text \<open>The relative error of a rounding is at most \<open>2 ^ -53\<close>.\<close>

lemma round_double_upper:
  assumes "0 \<le> x"
  shows "round_double x \<le> x * (1 + 1 / 2 ^ 53)"
proof (cases "x = 0")
  case True
  then show ?thesis by (simp add: round_double_def)
next
  case False
  define u :: real where "u = 2 powi (binary_exponent x - 52)"
  have u: "0 < u" by (simp add: u_def)
  have "of_int (round_half_even (x / u)) \<le> x / u + 1 / 2"
    using round_half_even_error [of "x / u"] by linarith
  then have "of_int (round_half_even (x / u)) * u \<le> (x / u + 1 / 2) * u"
    using u by (simp add: mult_right_mono)
  also have "\<dots> = x + u / 2"
    using u by (simp add: field_simps)
  finally have 1: "round_double x \<le> x + u / 2"
    using False by (simp add: round_double_def u_def Let_def)
  have "u = 2 powi (binary_exponent x) / 2 ^ 52"
    by (simp add: u_def power_int_diff)
  moreover have "2 powi (binary_exponent x) \<le> x"
    using binary_exponent_lower [OF False] assms by simp
  ultimately have "u / 2 \<le> x / 2 ^ 53"
    by (simp add: field_simps)
  with 1 show ?thesis by (simp add: field_simps)
qed

text \<open>A rounding does not go below an integer that the exact value has reached.\<close>

lemma round_double_ge_int:
  assumes "of_int k \<le> x" and "0 \<le> k" and "x < 2 ^ 53"
  shows "of_int k \<le> round_double x"
proof (cases "x = 0")
  case True
  with assms show ?thesis by (simp add: round_double_def)
next
  case False
  have x: "0 < x" using assms False by linarith
  define e where "e = binary_exponent x"
  have "(2::real) powi e \<le> x"
    using binary_exponent_lower [OF False] x by (simp add: e_def)
  then have "(2::real) powi e < 2 powi 53"
    using assms(3) by simp
  then have e: "e < 53"
    using power_int_le_imp_less_exp [of "2::real" e 53] by simp
  define j where "j = nat (52 - e)"
  define u :: real where "u = 2 powi (e - 52)"
  have uj: "u = 1 / 2 ^ j"
    using e by (simp add: u_def j_def power_int_def field_simps)
  have "of_int (k * 2 ^ j) \<le> x / u"
    using assms(1) by (simp add: uj mult_right_mono)
  then have "k * 2 ^ j \<le> round_half_even (x / u)"
    by (rule round_half_even_ge)
  then have "of_int (k * 2 ^ j) \<le> (of_int (round_half_even (x / u)) :: real)"
    by (simp only: of_int_le_iff)
  moreover have "0 \<le> u" by (simp add: u_def)
  ultimately have "of_int (k * 2 ^ j) * u \<le> of_int (round_half_even (x / u)) * u"
    by (rule mult_right_mono)
  moreover have "of_int (k * 2 ^ j) * u = of_int k"
    by (simp add: uj)
  ultimately have "of_int k \<le> of_int (round_half_even (x / u)) * u"
    by (simp only:)
  moreover have "round_double x = of_int (round_half_even (x / u)) * u"
    using False by (simp add: round_double_def Let_def u_def e_def)
  ultimately show ?thesis by simp
qed

text \<open>
  Up to \<open>2 ^ 51\<close> microseconds, about 71 years, the two roundings do not move the
  quotient across a whole number of minutes.
\<close>

lemma minutes_of_delta_nonneg:
  assumes "0 \<le> d" and "d \<le> 2 ^ 51"
  shows "py_int (round_double (total_seconds d / 60)) = d div 60000000"
proof -
  define k where "k = d div 60000000"
  define x :: real where "x = real_of_int d / 1000000"
  define t where "t = round_double x"
  define q where "q = round_double (t / 60)"
  have k0: "0 \<le> k" using assms(1) by (simp add: k_def pos_imp_zdiv_nonneg_iff)
  have kd: "60000000 * k \<le> d" and dk: "d + 1 \<le> 60000000 * (k + 1)"
    unfolding k_def by simp_all
  have x0: "0 \<le> x" using assms(1) by (simp add: x_def)
  have dr: "real_of_int d \<le> 2 ^ 51" using assms(2)
    by (metis of_int_le_iff of_int_numeral of_int_power)
  have xk: "of_int (60 * k) \<le> x"
  proof -
    have "real_of_int (60000000 * k) \<le> real_of_int d" using kd by (simp only: of_int_le_iff)
    then show ?thesis by (simp add: x_def)
  qed
  have xs: "x < 2 ^ 53" using dr by (simp add: x_def)
  have t1: "of_int (60 * k) \<le> t"
    unfolding t_def by (rule round_double_ge_int [OF xk _ xs]) (use k0 in simp)
  have t2: "t \<le> x * (1 + 1 / 2 ^ 53)"
    unfolding t_def by (rule round_double_upper [OF x0])
  have t0: "0 \<le> t" using t1 k0 by (smt (verit) of_int_0_le_iff mult_nonneg_nonneg)
  have tk: "of_int k \<le> t / 60" using t1 by simp
  have ts: "t / 60 < 2 ^ 53" using t2 dr by (simp add: x_def)
  have q1: "of_int k \<le> q"
    unfolding q_def by (rule round_double_ge_int [OF tk k0 ts])
  have "q \<le> t / 60 * (1 + 1 / 2 ^ 53)"
    unfolding q_def by (rule round_double_upper) (use t0 in simp)
  also have "\<dots> \<le> x * (1 + 1 / 2 ^ 53) / 60 * (1 + 1 / 2 ^ 53)"
    using t2 by (simp add: divide_right_mono mult_right_mono)
  also have "\<dots> = (real_of_int d + real_of_int d * (2 / 2 ^ 53 + 1 / 2 ^ 106)) / 60000000"
    by (simp add: x_def field_simps)
  also have "\<dots> < (real_of_int d + 1) / 60000000"
  proof -
    have "real_of_int d * (2 / 2 ^ 53 + 1 / 2 ^ 106) \<le> 2 ^ 51 * (2 / 2 ^ 53 + 1 / 2 ^ 106)"
      using dr by (intro mult_right_mono) simp_all
    also have "\<dots> < 1" by simp
    finally show ?thesis by (simp add: divide_strict_right_mono)
  qed
  also have "\<dots> \<le> of_int (k + 1)"
  proof -
    have "real_of_int (d + 1) \<le> real_of_int (60000000 * (k + 1))"
      using dk by (simp only: of_int_le_iff)
    then show ?thesis by simp
  qed
  finally have q2: "q < of_int (k + 1)" .
  have "\<lfloor>q\<rfloor> = k" using q1 q2 by (simp add: floor_unique)
  moreover have "0 \<le> q" using q1 k0 by linarith
  ultimately show ?thesis
    by (simp add: py_int_def total_seconds_def q_def t_def x_def k_def)
qed

lemma py_int_uminus: "py_int (- x) = - py_int x"
  by (simp add: py_int_def ceiling_def)

lemma minutes_of_delta_neg:
  assumes "d < 0" and "- (2 ^ 51) \<le> d"
  shows "py_int (round_double (total_seconds d / 60)) = - ((- d) div 60000000)"
proof -
  have "py_int (round_double (total_seconds d / 60))
          = - py_int (round_double (total_seconds (- d) / 60))"
    by (simp add: total_seconds_def round_double_uminus py_int_uminus flip: minus_divide_left)
  then show ?thesis using minutes_of_delta_nonneg [of "- d"] assms by simp
qed

lemma elapsed_minutes_exact:
  assumes "\<bar>datetime_sub now begin_dt\<bar> \<le> 2 ^ 51"
  shows "elapsed_minutes begin_dt now =
           (if 0 \<le> datetime_sub now begin_dt then datetime_sub now begin_dt div 60000000
            else - ((- datetime_sub now begin_dt) div 60000000))"
  using assms minutes_of_delta_nonneg [of "datetime_sub now begin_dt"]
    minutes_of_delta_neg [of "datetime_sub now begin_dt"]
  by (simp add: elapsed_minutes_def)

lemmas time_defs =
  every_minutes_def py_mod_def elapsed_minutes_exact datetime_sub_def sample_clock_def

text \<open>
  Beyond that bound the roundings can show: between 1369-12-14 00:00:00.000001 and
  2021-07-29 17:22:00 there are 342721041 whole minutes, and the two divisions give
  342721042.
\<close>

lemma elapsed_minutes_far:
  "elapsed_minutes \<lparr>ordinal = 500000, hour = 0, minute = 0, second = 0, microsecond = 1\<rparr>
     \<lparr>ordinal = 738000, hour = 17, minute = 22, second = 0, microsecond = 0\<rparr> = 342721042"
  by code_simp

lemma elapsed_minutes_backwards:
  "round_double (total_seconds (- 90000000) / 60) = - 3 / 2"
  by code_simp

subsection \<open>Time conditions\<close>

text \<open>
  Claim C1, as amended. For \<open>n > 0\<close> the condition built by \<open>every_minutes n\<close>
  matches if and only if the elapsed minutes are a multiple of \<open>n\<close>, where the elapsed
  minutes are \<^verbatim>\<open>int((now - created_at).total_seconds() / 60)\<close> as Python computes
  it: the count of microseconds divided by \<open>10 ^ 6\<close> and then by 60, each division
  rounded to a double, and the fractional part dropped. As long as \<open>now\<close> and
  \<open>created_at\<close> are at most \<open>2 ^ 51\<close> microseconds (about 71 years) apart, this is the
  exact quotient of the microseconds by 60000000 with its fractional part dropped: the
  floor when \<open>now\<close> is not before \<open>created_at\<close>, the ceiling when it is. At zero elapsed
  minutes the condition always matches.
\<close>

theorem every_minutes_matches:
  assumes "0 < n"
  shows "every_minutes n created_at now = Inr (elapsed_minutes created_at now mod n = 0)
         \<and> elapsed_minutes created_at now =
             py_int (round_double
               (round_double (real_of_int (datetime_sub now created_at) / 1000000) / 60))
         \<and> (\<bar>datetime_sub now created_at\<bar> \<le> 2 ^ 51 \<longrightarrow>
              elapsed_minutes created_at now =
                (if 0 \<le> datetime_sub now created_at
                 then \<lfloor>real_of_int (datetime_sub now created_at) / 60000000\<rfloor>
                 else \<lceil>real_of_int (datetime_sub now created_at) / 60000000\<rceil>))
         \<and> (elapsed_minutes created_at now = 0 \<longrightarrow> every_minutes n created_at now = Inr True)"
proof -
  have m: "every_minutes n created_at now = Inr (elapsed_minutes created_at now mod n = 0)"
    using assms by (simp add: every_minutes_def py_mod_def)
  have fl: "\<lfloor>real_of_int d / 60000000\<rfloor> = d div 60000000" for d :: int
    using floor_divide_of_int_eq [of d 60000000, where ?'a = real] by simp
  have ce: "\<lceil>real_of_int d / 60000000\<rceil> = - ((- d) div 60000000)" for d :: int
    using fl [of "- d"] by (simp add: ceiling_def)
  show ?thesis
    using m elapsed_minutes_exact [of now created_at]
    by (simp add: fl ce elapsed_minutes_def total_seconds_def)
qed

text \<open>
  Ten minutes and 49.0005 seconds after creation, a task for every 5 minutes matches;
  five seconds after creation (zero elapsed minutes) it matches too. Over the 651 years
  of \<open>elapsed_minutes_far\<close> a task for every 2 minutes matches, the elapsed minutes
  being the even number that the roundings give.
\<close>

theorem every_minutes_matches_witness:
  "(0::int) < 5
   \<and> every_minutes 5 \<lparr>ordinal = 738000, hour = 9, minute = 0, second = 10, microsecond = 0\<rparr>
        \<lparr>ordinal = 738000, hour = 9, minute = 10, second = 59, microsecond = 500\<rparr> = Inr True
   \<and> every_minutes 5 \<lparr>ordinal = 738000, hour = 9, minute = 0, second = 10, microsecond = 0\<rparr>
        \<lparr>ordinal = 738000, hour = 9, minute = 0, second = 15, microsecond = 0\<rparr> = Inr True
   \<and> (0::int) < 2
   \<and> every_minutes 2 \<lparr>ordinal = 500000, hour = 0, minute = 0, second = 0, microsecond = 1\<rparr>
        \<lparr>ordinal = 738000, hour = 17, minute = 22, second = 0, microsecond = 0\<rparr> = Inr True"
proof -
  let ?c = "\<lparr>ordinal = 738000, hour = 9, minute = 0, second = 10, microsecond = 0\<rparr>"
  let ?n1 = "\<lparr>ordinal = 738000, hour = 9, minute = 10, second = 59, microsecond = 500\<rparr>"
  let ?n2 = "\<lparr>ordinal = 738000, hour = 9, minute = 0, second = 15, microsecond = 0\<rparr>"
  let ?c3 = "\<lparr>ordinal = 500000, hour = 0, minute = 0, second = 0, microsecond = 1\<rparr>"
  let ?n3 = "\<lparr>ordinal = 738000, hour = 17, minute = 22, second = 0, microsecond = 0\<rparr>"
  have p5: "(0::int) < 5" and p2: "(0::int) < 2" by simp_all
  have e1: "elapsed_minutes ?c ?n1 = 10"
    using every_minutes_matches [OF p5, of ?c ?n1, THEN conjunct2, THEN conjunct2, THEN conjunct1]
    by (simp add: datetime_sub_def)
  have m1: "every_minutes 5 ?c ?n1 = Inr True"
    using every_minutes_matches [OF p5, of ?c ?n1, THEN conjunct1] e1 by simp
  have e2: "elapsed_minutes ?c ?n2 = 0"
    using every_minutes_matches [OF p5, of ?c ?n2, THEN conjunct2, THEN conjunct2, THEN conjunct1]
    by (simp add: datetime_sub_def)
  have m2: "every_minutes 5 ?c ?n2 = Inr True"
    using every_minutes_matches [OF p5, of ?c ?n2, THEN conjunct2, THEN conjunct2, THEN conjunct2]
      e2 by simp
  have m3: "every_minutes 2 ?c3 ?n3 = Inr True"
    using every_minutes_matches [OF p2, of ?c3 ?n3, THEN conjunct1] elapsed_minutes_far
    by simp
  show ?thesis using p5 p2 m1 m2 m3 by simp
qed

text \<open>
  Claim C1 as it is written fails when the clock reads earlier than the creation time.
  With a task created at 00:02:00 and evaluated at 00:00:30 of the same day, the
  difference is -90 seconds and the quotient by 60 is -1.5, both exact as doubles: its
  floor -2 is a multiple of 2, but \<^verbatim>\<open>int(-1.5)\<close> is -1 and the condition for every 2
  minutes does not match.
\<close>

theorem every_minutes_floor_counterexample:
  "every_minutes 2 \<lparr>ordinal = 738000, hour = 0, minute = 2, second = 0, microsecond = 0\<rparr>
        \<lparr>ordinal = 738000, hour = 0, minute = 0, second = 30, microsecond = 0\<rparr> = Inr False
   \<and> \<lfloor>round_double (total_seconds (datetime_sub
          \<lparr>ordinal = 738000, hour = 0, minute = 0, second = 30, microsecond = 0\<rparr>
          \<lparr>ordinal = 738000, hour = 0, minute = 2, second = 0, microsecond = 0\<rparr>) / 60)\<rfloor>
       mod 2 = 0"
  using elapsed_minutes_backwards
  by (simp add: every_minutes_def py_mod_def elapsed_minutes_def py_int_def datetime_sub_def)

text \<open>
  Claim C5. The condition built by \<open>specific_time h m\<close> matches if and only if the
  hour and the minute of the clock are \<open>h\<close> and \<open>m\<close>; the creation time plays no
  part, so two tasks with the same \<open>h\<close> and \<open>m\<close> and different creation times agree
  at every reading of the clock.
\<close>

theorem specific_time_matches:
  "specific_time h m created_at now = Inr (hour now = h \<and> minute now = m)
   \<and> specific_time h m c1 now = specific_time h m c2 now"
  by (simp add: specific_time_def)

lemma registered_condition:
  "time_condition (last (conditional_backups (fst (snd
     (append_conditional clock src dst c a w))))) = c"
  by (simp add: append_conditional_def TimeConditionedBackup_init_def datetime_now_def)

text \<open>
  Claim C9. A statement with \<^verbatim>\<open>every hour\<close> is registered exactly as one with
  \<^verbatim>\<open>every 60 minutes\<close>, \<^verbatim>\<open>every minute\<close> as \<^verbatim>\<open>every 1 minutes\<close> and
  \<^verbatim>\<open>every N hours\<close> as \<^verbatim>\<open>every 60 * N minutes\<close>; the condition of the task that
  is registered gives, at every creation time and every reading of the clock, the result
  of \<open>every_minutes\<close> of 60, 1 and \<open>60 * N\<close>.
\<close>

theorem recurrence_forms_are_every_minutes:
  "parse_run_inst ops clock (Inst c0 c1 (Some (avg_time_expresion every_hour))) a w
     = parse_run_inst ops clock (Inst c0 c1 (Some (avg_time_expresion (every_nb_minutes 60)))) a w
   \<and> parse_run_inst ops clock (Inst c0 c1 (Some (avg_time_expresion every_minute))) a w
     = parse_run_inst ops clock (Inst c0 c1 (Some (avg_time_expresion (every_nb_minutes 1)))) a w
   \<and> parse_run_inst ops clock (Inst c0 c1 (Some (avg_time_expresion (every_nb_hours N)))) a w
     = parse_run_inst ops clock
         (Inst c0 c1 (Some (avg_time_expresion (every_nb_minutes (60 * N))))) a w
   \<and> time_condition (last (conditional_backups (fst (snd
        (parse_run_inst ops clock (Inst c0 c1 (Some (avg_time_expresion every_hour))) a w)))))
        created_at now = every_minutes 60 created_at now
   \<and> time_condition (last (conditional_backups (fst (snd
        (parse_run_inst ops clock (Inst c0 c1 (Some (avg_time_expresion every_minute))) a w)))))
        created_at now = every_minutes 1 created_at now
   \<and> time_condition (last (conditional_backups (fst (snd
        (parse_run_inst ops clock (Inst c0 c1 (Some (avg_time_expresion (every_nb_hours N)))) a w)))))
        created_at now = every_minutes (60 * N) created_at now
   \<and> time_condition (last (conditional_backups (fst (snd
        (parse_run_inst ops clock (Inst c0 c1 (Some (avg_time_expresion (every_nb_minutes N)))) a w)))))
        created_at now = every_minutes N created_at now"
  by (simp add: registered_condition mult.commute)

text \<open>
  Claim C10. The modulo of \<open>every_minutes\<close> is not guarded: with 0 minutes the
  condition raises \<^verbatim>\<open>ZeroDivisionError\<close> at every creation time and every reading
  of the clock, and so does the condition of the task registered for
  \<^verbatim>\<open>every 0 minutes\<close> or \<^verbatim>\<open>every 0 hours\<close>. With \<open>n > 0\<close> the condition
  returns a boolean.
\<close>

theorem every_minutes_zero_raises:
  "every_minutes 0 created_at now = Inl ZeroDivisionError
   \<and> time_condition (last (conditional_backups (fst (snd
        (parse_run_inst ops clock (Inst c0 c1 (Some (avg_time_expresion (every_nb_minutes 0)))) a w)))))
        created_at now = Inl ZeroDivisionError
   \<and> time_condition (last (conditional_backups (fst (snd
        (parse_run_inst ops clock (Inst c0 c1 (Some (avg_time_expresion (every_nb_hours 0)))) a w)))))
        created_at now = Inl ZeroDivisionError
   \<and> (0 < n \<longrightarrow> (\<exists>b. every_minutes n created_at now = Inr b))"
  by (simp add: registered_condition every_minutes_def py_mod_def)

theorem every_minutes_zero_raises_witness:
  "every_minutes 0 (sample_clock 0) (sample_clock 1) = Inl ZeroDivisionError
   \<and> (0::int) < 3 \<and> every_minutes 3 (sample_clock 0) (sample_clock 1) = Inr True
   \<and> dsl_parse ''backup a to b : every 0 hours''
       = Inr [Inst ''a'' ''b'' (Some (avg_time_expresion (every_nb_hours 0)))]
   \<and> main 5 toy_ops sample_clock dsl_parse ''backup a to b : every 0 hours''
        (new_world sample_fs)
       = Some (Some ZeroDivisionError,
           \<lparr>fs = sample_fs, logs = [(INFO, ''Registering backup task with time condition'')],
             clock_reads = 2, slept = 0\<rparr>)"
  using every_minutes_zero_raises [of "sample_clock 0" "sample_clock 1" toy_ops sample_clock
      "''a''" "''b''" "\<lparr>program = [], conditional_backups = []\<rparr>" "new_world sample_fs" 3]
  by (simp add: run_defs dsl_defs time_defs sample_fs_def)

subsection \<open>Executing a backup\<close>

text \<open>
  Claim C7, as amended. When the source exists and is a directory: if the destination
  exists, \<open>rmtree\<close> is called on it first, on the filesystem as it was found. If that
  call raises, the backup ends with its exception on the filesystem it left, and nothing
  is copied. If it returns, \<open>copytree\<close> then copies the source to the destination on
  the filesystem that the removal left, and the outcome of the backup is the outcome of
  that copy. If the destination does not exist, \<open>copytree\<close> is called on the filesystem
  as it was found, with no removal before it.
\<close>

theorem directory_backup_replaces_destination:
  assumes "exists ops (fs w) (source t)" and "isdir ops (fs w) (source t)"
  shows "if exists ops (fs w) (destination t) then
           (case rmtree ops (fs w) (destination t) of
              (Some e, f) \<Rightarrow>
                fst (DirectBackupTask_run_backup ops t w) = Some e
                \<and> fs (snd (DirectBackupTask_run_backup ops t w)) = f
            | (None, f) \<Rightarrow>
                fst (DirectBackupTask_run_backup ops t w)
                  = fst (copytree ops f (source t) (destination t))
                \<and> fs (snd (DirectBackupTask_run_backup ops t w))
                  = snd (copytree ops f (source t) (destination t)))
         else
           fst (DirectBackupTask_run_backup ops t w)
             = fst (copytree ops (fs w) (source t) (destination t))
           \<and> fs (snd (DirectBackupTask_run_backup ops t w))
             = snd (copytree ops (fs w) (source t) (destination t))"
  using assms
  by (simp add: DirectBackupTask_run_backup_def log_event_def and_then_def fs_call_def
      split: prod.splits option.splits)

text \<open>
  On the sample filesystem the directory \<open>d\<close> (one file \<open>x\<close>) replaces the directory
  \<open>old\<close> (one file \<open>y\<close>): afterwards \<open>old\<close> holds \<open>x\<close> only. Onto the path
  \<open>new\<close>, which does not exist, \<open>d\<close> is copied with nothing removed. Onto \<open>f\<close>, a
  regular file, the removal raises and nothing is copied. Onto itself, \<open>d\<close> is removed
  and the copy then finds no source.
\<close>

theorem directory_backup_replaces_destination_witness:
  "exists toy_ops (fs (new_world sample_fs)) (source \<lparr>source = ''d'', destination = ''old''\<rparr>)
   \<and> isdir toy_ops (fs (new_world sample_fs)) (source \<lparr>source = ''d'', destination = ''old''\<rparr>)
   \<and> exists toy_ops (fs (new_world sample_fs)) ''old''
   \<and> fst (DirectBackupTask_run_backup toy_ops \<lparr>source = ''d'', destination = ''old''\<rparr>
            (new_world sample_fs)) = None
   \<and> fs (snd (DirectBackupTask_run_backup toy_ops \<lparr>source = ''d'', destination = ''old''\<rparr>
            (new_world sample_fs)))
       = [(''old'', Directory [(''x'', ''1'')]), (''d'', Directory [(''x'', ''1'')]),
          (''f'', RegularFile ''F''), (''a'', RegularFile ''A'')]
   \<and> exists toy_ops (fs (new_world sample_fs)) ''new'' = False
   \<and> fst (DirectBackupTask_run_backup toy_ops \<lparr>source = ''d'', destination = ''new''\<rparr>
            (new_world sample_fs)) = None
   \<and> fs (snd (DirectBackupTask_run_backup toy_ops \<lparr>source = ''d'', destination = ''new''\<rparr>
            (new_world sample_fs)))
       = (''new'', Directory [(''x'', ''1'')]) # sample_fs
   \<and> exists toy_ops (fs (new_world sample_fs)) ''f''
   \<and> rmtree toy_ops (fs (new_world sample_fs)) ''f''
       = (Some (OSError ''NotADirectoryError''), sample_fs)
   \<and> fst (DirectBackupTask_run_backup toy_ops \<lparr>source = ''d'', destination = ''f''\<rparr>
            (new_world sample_fs)) = Some (OSError ''NotADirectoryError'')
   \<and> fs (snd (DirectBackupTask_run_backup toy_ops \<lparr>source = ''d'', destination = ''f''\<rparr>
            (new_world sample_fs))) = sample_fs
   \<and> exists toy_ops (fs (new_world sample_fs)) ''d''
   \<and> rmtree toy_ops (fs (new_world sample_fs)) ''d''
       = (None, [(''old'', Directory [(''y'', ''2'')]), (''f'', RegularFile ''F''),
                 (''a'', RegularFile ''A'')])
   \<and> fst (DirectBackupTask_run_backup toy_ops \<lparr>source = ''d'', destination = ''d''\<rparr>
            (new_world sample_fs)) = Some (OSError ''FileNotFoundError'')
   \<and> fs (snd (DirectBackupTask_run_backup toy_ops \<lparr>source = ''d'', destination = ''d''\<rparr>
            (new_world sample_fs)))
       = [(''old'', Directory [(''y'', ''2'')]), (''f'', RegularFile ''F''),
          (''a'', RegularFile ''A'')]"
  using directory_backup_replaces_destination
          [of toy_ops "new_world sample_fs" "\<lparr>source = ''d'', destination = ''old''\<rparr>"]
        directory_backup_replaces_destination
          [of toy_ops "new_world sample_fs" "\<lparr>source = ''d'', destination = ''new''\<rparr>"]
        directory_backup_replaces_destination
          [of toy_ops "new_world sample_fs" "\<lparr>source = ''d'', destination = ''f''\<rparr>"]
        directory_backup_replaces_destination
          [of toy_ops "new_world sample_fs" "\<lparr>source = ''d'', destination = ''d''\<rparr>"]
  by (simp add: toy_defs new_world_def)

text \<open>
  Claim C7 as it is written fails: the source \<open>d\<close> exists and is a directory and the
  destination \<open>f\<close> exists, as a regular file. The backup ends with the exception of
  \<open>rmtree\<close>: \<open>f\<close> is not removed and \<open>d\<close> is not copied to it.
\<close>

theorem directory_backup_counterexample:
  "exists toy_ops (fs (new_world sample_fs)) ''d''
   \<and> isdir toy_ops (fs (new_world sample_fs)) ''d''
   \<and> exists toy_ops (fs (new_world sample_fs)) ''f''
   \<and> DirectBackupTask_run_backup toy_ops \<lparr>source = ''d'', destination = ''f''\<rparr>
        (new_world sample_fs)
       = (Some (OSError ''NotADirectoryError''),
          \<lparr>fs = sample_fs,
            logs = [(INFO, ''Backuping d to f''), (DEBUG, ''d is a directory''),
                    (DEBUG, ''d destination (f) exists removing'')],
            clock_reads = 0, slept = 0\<rparr>)
   \<and> map_of sample_fs ''f'' = Some (RegularFile ''F'')"
  by (simp add: run_defs toy_defs)

text \<open>
  Claim C8. When the source of a backup does not exist, the execution logs one error
  record that names the source and the destination, raises nothing and leaves the
  filesystem as it was: no copy is made. What follows goes on: in a pass of the poll loop
  the tasks after it are taken next, and at load the instructions after it are.
\<close>

theorem missing_source_reported:
  assumes "\<not> exists ops (fs w) (source t)"
  shows "DirectBackupTask_run_backup ops t w
           = (None, log_event ERROR
                (''Cannot backup '' @ source t @ '' to '' @ destination t
                   @ '' because source does not exist'') w)
         \<and> fs (snd (DirectBackupTask_run_backup ops t w)) = fs w
         \<and> (backup_task tc = t
              \<and> time_condition tc (creation_date tc) (clock (clock_reads w)) = Inr True
            \<longrightarrow> tick ops clock (tc # ts) w
                  = tick ops clock ts
                      (log_event ERROR
                        (''Cannot backup '' @ source t @ '' to '' @ destination t
                           @ '' because source does not exist'')
                        (snd (datetime_now clock w))))
         \<and> (source t = strip c0 \<and> destination t = strip c1
            \<longrightarrow> parse_run_loop ops clock (Inst c0 c1 None # rest) a w
                  = parse_run_loop ops clock rest a
                      (log_event ERROR
                        (''Cannot backup '' @ source t @ '' to '' @ destination t
                           @ '' because source does not exist'')
                        (log_event INFO ''Running backup task'' w)))"
proof -
  let ?msg = "''Cannot backup '' @ source t @ '' to '' @ destination t
                @ '' because source does not exist''"
  have direct: "DirectBackupTask_run_backup ops t v = (None, log_event ERROR ?msg v)"
    if "fs v = fs w" for v
    using assms that by (simp add: DirectBackupTask_run_backup_def)
  have c1: "DirectBackupTask_run_backup ops t w = (None, log_event ERROR ?msg w)"
    using direct [of w] by simp
  have c2: "fs (snd (DirectBackupTask_run_backup ops t w)) = fs w"
    using c1 by (simp add: log_event_def)
  have c3: "tick ops clock (tc # ts) w
              = tick ops clock ts (log_event ERROR ?msg (snd (datetime_now clock w)))"
    if "backup_task tc = t"
      and "time_condition tc (creation_date tc) (clock (clock_reads w)) = Inr True"
    using that direct [of "snd (datetime_now clock w)"]
    by (simp add: TimeConditionedBackup_run_backup_def datetime_now_def)
  have c4: "parse_run_loop ops clock (Inst c0 c1 None # rest) a w
              = parse_run_loop ops clock rest a
                  (log_event ERROR ?msg (log_event INFO ''Running backup task'' w))"
    if "source t = strip c0" and "destination t = strip c1"
  proof -
    have "\<lparr>source = strip c0, destination = strip c1\<rparr> = t"
      using that by simp
    then show ?thesis
      using direct [of "log_event INFO ''Running backup task'' w"]
      by (simp add: log_event_def)
  qed
  show ?thesis using c1 c2 c3 c4 by blast
qed

text \<open>
  The source \<open>zz\<close> is not on the sample filesystem. A task with that source, due at
  once, is followed in the same pass by \<open>sample_task_a_b\<close>, which copies \<open>a\<close> to \<open>b\<close>;
  at load, an instruction with that source is followed by the copy of \<open>a\<close> to \<open>b\<close>.
\<close>

theorem missing_source_reported_witness:
  "exists toy_ops (fs (new_world sample_fs)) (source \<lparr>source = ''zz'', destination = ''old''\<rparr>)
     = False
   \<and> DirectBackupTask_run_backup toy_ops \<lparr>source = ''zz'', destination = ''old''\<rparr>
        (new_world sample_fs)
       = (None, \<lparr>fs = sample_fs,
                 logs = [(ERROR, ''Cannot backup zz to old because source does not exist'')],
                 clock_reads = 0, slept = 0\<rparr>)
   \<and> time_condition
        \<lparr>creation_date = sample_clock 0,
          backup_task = \<lparr>source = ''zz'', destination = ''old''\<rparr>,
          time_condition = every_minutes 1\<rparr>
        (sample_clock 0) (sample_clock (clock_reads (new_world sample_fs :: toy_fs world)))
       = Inr True
   \<and> tick toy_ops sample_clock
        [\<lparr>creation_date = sample_clock 0,
           backup_task = \<lparr>source = ''zz'', destination = ''old''\<rparr>,
           time_condition = every_minutes 1\<rparr>, sample_task_a_b] (new_world sample_fs)
       = (None, \<lparr>fs = (''b'', RegularFile ''A'') # sample_fs,
                 logs = [(ERROR, ''Cannot backup zz to old because source does not exist''),
                         (INFO, ''Backuping a to b''), (DEBUG, ''Copying a file to b''),
                         (DEBUG, ''Copy of a to b done'')],
                 clock_reads = 2, slept = 0\<rparr>)
   \<and> strip ''zz '' = ''zz'' \<and> strip '' old'' = ''old''
   \<and> parse_run_loop toy_ops sample_clock [Inst ''zz '' '' old'' None, Inst ''a'' ''b'' None]
        \<lparr>program = [], conditional_backups = []\<rparr> (new_world sample_fs)
       = (None, \<lparr>program = [], conditional_backups = []\<rparr>,
          \<lparr>fs = (''b'', RegularFile ''A'') # sample_fs,
            logs = [(INFO, ''Running backup task''),
                    (ERROR, ''Cannot backup zz to old because source does not exist''),
                    (INFO, ''Running backup task''),
                    (INFO, ''Backuping a to b''), (DEBUG, ''Copying a file to b''),
                    (DEBUG, ''Copy of a to b done'')],
            clock_reads = 0, slept = 0\<rparr>)"
  using missing_source_reported
          [where ops = toy_ops and w = "new_world sample_fs"
             and t = "\<lparr>source = ''zz'', destination = ''old''\<rparr>"
             and tc = "\<lparr>creation_date = sample_clock 0,
                        backup_task = \<lparr>source = ''zz'', destination = ''old''\<rparr>,
                        time_condition = every_minutes 1\<rparr>"
             and clock = sample_clock and ts = "[sample_task_a_b]"
             and ?c0.0 = "''zz ''" and ?c1.0 = "'' old''" and rest = "[Inst ''a'' ''b'' None]"
             and a = "\<lparr>program = [], conditional_backups = []\<rparr>"]
  by (simp add: run_defs toy_defs time_defs sample_task_a_b_def)

subsection \<open>Errors at load and in the poll loop\<close>

text \<open>
  Claim C6. When the parser rejects the program text, \<open>App_init\<close> raises the parser's
  exception with the world untouched (no backup has run, nothing is logged, the clock has
  not been read) and with no task registered, and the script ends with that exception
  without reaching \<open>App_run\<close>. The parser sees the whole text before the first
  instruction is looked at, so a well-formed prefix changes nothing.
\<close>

theorem malformed_program_halts_startup:
  assumes "parse prog = Inl e"
  shows "App_init ops clock parse prog w
           = (Some e, \<lparr>program = prog, conditional_backups = []\<rparr>, w)
         \<and> main fuel ops clock parse prog w = Some (Some e, w)"
  using assms by (simp add: App_init_def App_parse_run_def main_def)

text \<open>
  The second statement of \<open>program_missing_to\<close> lacks its \<^verbatim>\<open>to\<close>; the first one is
  well formed and is not executed.
\<close>

theorem malformed_program_halts_startup_witness:
  "dsl_parse program_missing_to = Inl ParseError
   \<and> main 5 toy_ops sample_clock dsl_parse program_missing_to
        (new_world sample_fs) = Some (Some ParseError, new_world sample_fs)"
  using malformed_program_halts_startup
          [where parse = dsl_parse and prog = program_missing_to
             and e = ParseError and ops = toy_ops and clock = sample_clock
             and w = "new_world sample_fs" and fuel = 5]
        parse_missing_to
  by simp

lemma tick_append:
  "tick ops clock (xs @ ys) w =
     (case tick ops clock xs w of
        (Some e, w') \<Rightarrow> (Some e, w')
      | (None, w') \<Rightarrow> tick ops clock ys w')"
  by (induction xs arbitrary: w) (auto split: prod.splits option.splits)

text \<open>Passes of the poll loop in which no task raises only use up fuel.\<close>

lemma poll_loop_quiet_passes:
  assumes "\<forall>i<j. fst (tick ops clock ts (ws i)) = None
             \<and> ws (Suc i) = time_sleep 60 (log_event INFO ''Sleeping for a minute''
                               (snd (tick ops clock ts (ws i))))"
    and "j \<le> fuel"
  shows "poll_loop fuel ops clock ts (ws 0) = poll_loop (fuel - j) ops clock ts (ws j)"
  using assms
proof (induction j arbitrary: fuel ws)
  case 0
  show ?case by simp
next
  case (Suc j)
  obtain f where fuel: "fuel = Suc f" and jf: "j \<le> f"
    using Suc.prems(2) by (cases fuel) auto
  have first: "fst (tick ops clock ts (ws 0)) = None"
    and next_w: "ws (Suc 0) = time_sleep 60 (log_event INFO ''Sleeping for a minute''
                               (snd (tick ops clock ts (ws 0))))"
    using Suc.prems(1) by auto
  have "poll_loop fuel ops clock ts (ws 0) = poll_loop f ops clock ts (ws (Suc 0))"
    using first next_w by (cases "tick ops clock ts (ws 0)") (simp add: fuel)
  also have "\<dots> = poll_loop (f - j) ops clock ts (ws (Suc j))"
  proof -
    have shifted: "\<forall>i<j. fst (tick ops clock ts (ws (Suc i))) = None
             \<and> ws (Suc (Suc i)) = time_sleep 60 (log_event INFO ''Sleeping for a minute''
                                     (snd (tick ops clock ts (ws (Suc i)))))"
      using Suc.prems(1) by (metis Suc_less_eq)
    show ?thesis
      using Suc.IH [of "\<lambda>i. ws (Suc i)" f, OF shifted jf] .
  qed
  finally show ?case by (simp add: fuel)
qed

text \<open>
  Claim C2, as amended. No exception is caught anywhere in the program. In whichever
  pass of the poll loop it happens, the passes before it having gone through without an
  exception: when the execution of a registered task raises (the tasks before it in the
  list having run without raising), the pass stops at that task, the tasks after it are
  not run, nothing is logged about it, and the exception leaves the poll loop and
  \<open>App_run\<close> in the world in which it was raised. Here \<open>ws i\<close> is the world at the
  start of pass \<open>i\<close>.
\<close>

theorem task_error_leaves_the_loop:
  assumes "ws 0 = w"
    and "\<forall>i<j. fst (tick ops clock (before @ t # after) (ws i)) = None
           \<and> ws (Suc i) = time_sleep 60 (log_event INFO ''Sleeping for a minute''
                             (snd (tick ops clock (before @ t # after) (ws i))))"
    and "tick ops clock before (ws j) = (None, w1)"
    and "TimeConditionedBackup_run_backup ops clock t w1 = (Some e, w2)"
    and "j < fuel"
  shows "tick ops clock (before @ t # after) (ws j) = (Some e, w2)
         \<and> poll_loop fuel ops clock (before @ t # after) w = Some (e, w2)
         \<and> App_run fuel ops clock (a\<lparr>conditional_backups := before @ t # after\<rparr>) w
             = Some (Some e, w2)"
proof -
  have pass: "tick ops clock (before @ t # after) (ws j) = (Some e, w2)"
    using assms(3,4) by (simp add: tick_append)
  obtain m where m: "fuel - j = Suc m"
    using assms(5) by (cases "fuel - j") auto
  have "poll_loop fuel ops clock (before @ t # after) (ws 0)
          = poll_loop (fuel - j) ops clock (before @ t # after) (ws j)"
    using assms(2,5) by (intro poll_loop_quiet_passes) auto
  also have "\<dots> = Some (e, w2)"
    using pass by (simp add: m)
  finally have loop: "poll_loop fuel ops clock (before @ t # after) w = Some (e, w2)"
    using assms(1) by simp
  show ?thesis using pass loop by (simp add: App_run_def)
qed

text \<open>
  With \<open>minute_clock\<close> the first pass goes through: \<open>sample_task_d_f_at\<close> is not due at
  17:22 and \<open>a\<close> is copied to \<open>b\<close>. In the second pass the clock reads 17:24, the
  \<open>rmtree\<close> of the first task is refused because \<open>f\<close> is a regular file, the copy of
  \<open>a\<close> is not run again and \<open>App_run\<close> ends with that exception.
\<close>

theorem task_error_leaves_the_loop_witness:
  "tick toy_ops minute_clock [sample_task_d_f_at, sample_task_a_b_minutely] (new_world sample_fs)
     = (None, \<lparr>fs = (''b'', RegularFile ''A'') # sample_fs,
               logs = [(INFO, ''Backuping a to b''), (DEBUG, ''Copying a file to b''),
                       (DEBUG, ''Copy of a to b done'')],
               clock_reads = 2, slept = 0\<rparr>)
   \<and> tick toy_ops minute_clock []
        \<lparr>fs = (''b'', RegularFile ''A'') # sample_fs,
          logs = [(INFO, ''Backuping a to b''), (DEBUG, ''Copying a file to b''),
                  (DEBUG, ''Copy of a to b done''), (INFO, ''Sleeping for a minute'')],
          clock_reads = 2, slept = 60\<rparr>
     = (None, \<lparr>fs = (''b'', RegularFile ''A'') # sample_fs,
          logs = [(INFO, ''Backuping a to b''), (DEBUG, ''Copying a file to b''),
                  (DEBUG, ''Copy of a to b done''), (INFO, ''Sleeping for a minute'')],
          clock_reads = 2, slept = 60\<rparr>)
   \<and> TimeConditionedBackup_run_backup toy_ops minute_clock sample_task_d_f_at
        \<lparr>fs = (''b'', RegularFile ''A'') # sample_fs,
          logs = [(INFO, ''Backuping a to b''), (DEBUG, ''Copying a file to b''),
                  (DEBUG, ''Copy of a to b done''), (INFO, ''Sleeping for a minute'')],
          clock_reads = 2, slept = 60\<rparr>
     = (Some (OSError ''NotADirectoryError''),
        \<lparr>fs = (''b'', RegularFile ''A'') # sample_fs,
          logs = [(INFO, ''Backuping a to b''), (DEBUG, ''Copying a file to b''),
                  (DEBUG, ''Copy of a to b done''), (INFO, ''Sleeping for a minute''),
                  (INFO, ''Backuping d to f''), (DEBUG, ''d is a directory''),
                  (DEBUG, ''d destination (f) exists removing'')],
          clock_reads = 3, slept = 60\<rparr>)
   \<and> (1::nat) < 2
   \<and> App_run 2 toy_ops minute_clock
        (\<lparr>program = [], conditional_backups = []\<rparr>
           \<lparr>conditional_backups := [] @ sample_task_d_f_at # [sample_task_a_b_minutely]\<rparr>)
        (new_world sample_fs)
     = Some (Some (OSError ''NotADirectoryError''),
        \<lparr>fs = (''b'', RegularFile ''A'') # sample_fs,
          logs = [(INFO, ''Backuping a to b''), (DEBUG, ''Copying a file to b''),
                  (DEBUG, ''Copy of a to b done''), (INFO, ''Sleeping for a minute''),
                  (INFO, ''Backuping d to f''), (DEBUG, ''d is a directory''),
                  (DEBUG, ''d destination (f) exists removing'')],
          clock_reads = 3, slept = 60\<rparr>)"
proof -
  let ?ts = "[] @ sample_task_d_f_at # [sample_task_a_b_minutely]"
  let ?v0 = "\<lparr>fs = (''b'', RegularFile ''A'') # sample_fs,
               logs = [(INFO, ''Backuping a to b''), (DEBUG, ''Copying a file to b''),
                       (DEBUG, ''Copy of a to b done'')],
               clock_reads = 2, slept = 0\<rparr>"
  let ?w1 = "\<lparr>fs = (''b'', RegularFile ''A'') # sample_fs,
          logs = [(INFO, ''Backuping a to b''), (DEBUG, ''Copying a file to b''),
                  (DEBUG, ''Copy of a to b done''), (INFO, ''Sleeping for a minute'')],
          clock_reads = 2, slept = 60\<rparr>"
  let ?w2 = "\<lparr>fs = (''b'', RegularFile ''A'') # sample_fs,
          logs = [(INFO, ''Backuping a to b''), (DEBUG, ''Copying a file to b''),
                  (DEBUG, ''Copy of a to b done''), (INFO, ''Sleeping for a minute''),
                  (INFO, ''Backuping d to f''), (DEBUG, ''d is a directory''),
                  (DEBUG, ''d destination (f) exists removing'')],
          clock_reads = 3, slept = 60\<rparr>"
  let ?ws = "\<lambda>i::nat. if i = 0 then new_world sample_fs else ?w1"
  have p0: "tick toy_ops minute_clock [sample_task_d_f_at, sample_task_a_b_minutely]
              (new_world sample_fs) = (None, ?v0)"
    by (simp add: sample_task_d_f_at_def sample_task_a_b_minutely_def specific_time_def
        minute_clock_def run_defs toy_defs time_defs)
  have h1: "?ws 0 = new_world sample_fs" by simp
  have h2: "\<forall>i<1. fst (tick toy_ops minute_clock ?ts (?ws i)) = None
              \<and> ?ws (Suc i) = time_sleep 60 (log_event INFO ''Sleeping for a minute''
                                 (snd (tick toy_ops minute_clock ?ts (?ws i))))"
    using p0 by (simp add: time_sleep_def log_event_def)
  have h3: "tick toy_ops minute_clock [] (?ws 1) = (None, ?w1)" by simp
  have h4: "TimeConditionedBackup_run_backup toy_ops minute_clock sample_task_d_f_at ?w1
              = (Some (OSError ''NotADirectoryError''), ?w2)"
    by (simp add: sample_task_d_f_at_def specific_time_def minute_clock_def run_defs toy_defs
        time_defs)
  have h5: "(1::nat) < 2" by simp
  show ?thesis
    using task_error_leaves_the_loop [of ?ws "new_world sample_fs" 1 toy_ops minute_clock
        "[]" sample_task_d_f_at "[sample_task_a_b_minutely]" ?w1
        "OSError ''NotADirectoryError''" ?w2 2
        "\<lparr>program = [], conditional_backups = []\<rparr>", OF h1 h2 h3 h4 h5]
      p0 h3 h4
    by simp
qed

text \<open>
  Claim C2 as it is written fails: on \<open>program_every_minute\<close> the first pass of the poll
  loop ends the run with the exception of the first task. The second task has not run
  (\<open>b\<close> is not created), no error record is logged and the loop never reaches its sleep.
\<close>

theorem task_error_counterexample:
  "main 5 toy_ops sample_clock dsl_parse
     program_every_minute
     (new_world sample_fs)
   = Some (Some (OSError ''NotADirectoryError''),
       \<lparr>fs = sample_fs,
         logs = [(INFO, ''Registering backup task with time condition''),
                 (INFO, ''Registering backup task with time condition''),
                 (INFO, ''Backuping d to f''), (DEBUG, ''d is a directory''),
                 (DEBUG, ''d destination (f) exists removing'')],
         clock_reads = 3, slept = 0\<rparr>)"
  by (simp add: parse_every_minute_twice run_defs toy_defs time_defs)

subsection \<open>Loading a program\<close>


lemma parse_run_inst_unconditional:
  assumes "unconditional i"
  shows "parse_run_inst ops clock i a w
           = (fst (run_unconditional ops i w), a, snd (run_unconditional ops i w))"
  using assms by (cases i) (simp split: prod.splits)








subsection \<open>Programs without time conditions\<close>

lemma unconditional_loop_returns:
  assumes "\<forall>i\<in>set t. unconditional i"
    and "\<forall>k<length t. fst (run_unconditional ops (t ! k)
            (foldl (\<lambda>w i. snd (run_unconditional ops i w)) w (take k t))) = None"
  shows "parse_run_loop ops clock t a w
           = (None, a, foldl (\<lambda>w i. snd (run_unconditional ops i w)) w t)"
  using assms
proof (induction t arbitrary: w)
  case Nil
  show ?case by simp
next
  case (Cons i t)
  have u: "unconditional i" using Cons.prems(1) by simp
  have first: "fst (run_unconditional ops i w) = None"
    using Cons.prems(2) by fastforce
  have rest: "\<forall>k<length t. fst (run_unconditional ops (t ! k)
            (foldl (\<lambda>w i. snd (run_unconditional ops i w))
               (snd (run_unconditional ops i w)) (take k t))) = None"
  proof (intro allI impI)
    fix k assume "k < length t"
    then have "Suc k < length (i # t)" by simp
    from Cons.prems(2) [rule_format, OF this] show
      "fst (run_unconditional ops (t ! k)
            (foldl (\<lambda>w i. snd (run_unconditional ops i w))
               (snd (run_unconditional ops i w)) (take k t))) = None"
      by simp
  qed
  have "parse_run_loop ops clock t a (snd (run_unconditional ops i w))
          = (None, a, foldl (\<lambda>w i. snd (run_unconditional ops i w))
                        (snd (run_unconditional ops i w)) t)"
    using Cons.IH [OF _ rest] Cons.prems(1) by simp
  then show ?case
    using parse_run_inst_unconditional [OF u, of ops clock a w] first by simp
qed

lemma unconditional_loop_raises:
  assumes "\<forall>i\<in>set t. unconditional i"
    and "k < length t"
    and "\<forall>i<k. fst (run_unconditional ops (t ! i)
            (foldl (\<lambda>w i. snd (run_unconditional ops i w)) w (take i t))) = None"
    and "run_unconditional ops (t ! k)
            (foldl (\<lambda>w i. snd (run_unconditional ops i w)) w (take k t)) = (Some e, w')"
  shows "parse_run_loop ops clock t a w = (Some e, a, w')"
  using assms
proof (induction t arbitrary: w k)
  case Nil
  then show ?case by simp
next
  case (Cons i t)
  have u: "unconditional i" using Cons.prems(1) by simp
  note step = parse_run_inst_unconditional [OF u, of ops clock a w]
  show ?case
  proof (cases k)
    case 0
    then have "run_unconditional ops i w = (Some e, w')"
      using Cons.prems(4) by simp
    then show ?thesis using step by simp
  next
    case (Suc k')
    have first: "fst (run_unconditional ops i w) = None"
      using Cons.prems(3) [rule_format, of 0] Suc by simp
    have before: "\<forall>j<k'. fst (run_unconditional ops (t ! j)
            (foldl (\<lambda>w i. snd (run_unconditional ops i w))
               (snd (run_unconditional ops i w)) (take j t))) = None"
    proof (intro allI impI)
      fix j assume "j < k'"
      then have "Suc j < k" using Suc by simp
      from Cons.prems(3) [rule_format, OF this] show
        "fst (run_unconditional ops (t ! j)
            (foldl (\<lambda>w i. snd (run_unconditional ops i w))
               (snd (run_unconditional ops i w)) (take j t))) = None"
        by simp
    qed
    have "parse_run_loop ops clock t a (snd (run_unconditional ops i w)) = (Some e, a, w')"
    proof (rule Cons.IH [of k'])
      show "\<forall>i\<in>set t. unconditional i" using Cons.prems(1) by simp
      show "k' < length t" using Cons.prems(2) Suc by simp
      show "\<forall>j<k'. fst (run_unconditional ops (t ! j)
            (foldl (\<lambda>w i. snd (run_unconditional ops i w))
               (snd (run_unconditional ops i w)) (take j t))) = None"
        by (rule before)
      show "run_unconditional ops (t ! k')
            (foldl (\<lambda>w i. snd (run_unconditional ops i w))
               (snd (run_unconditional ops i w)) (take k' t)) = (Some e, w')"
        using Cons.prems(4) Suc by simp
    qed
    then show ?thesis using step first by simp
  qed
qed

text \<open>
  Claim C4, as amended. For a program that parses to unconditional instructions only, no
  task is registered by the load, and what the load does is decided by the executions of
  the instructions taken in the order of the program, each in the world that the ones
  before it have left. When none of them raises, the load returns in the world obtained
  by executing every instruction once, in order, and \<open>App_run\<close> returns at once, whatever
  the fuel, without a pass of the poll loop. When the execution of the instruction at
  position \<open>k\<close> is the first to raise, the load ends there with that exception, in the
  world in which it was raised: the instructions before it have been executed once each,
  in order, those after it are not executed, and \<open>App_run\<close> is not reached.
\<close>

theorem unconditional_program_runs_in_order:
  assumes "parse prog = Inr t" and "\<forall>i\<in>set t. unconditional i"
  shows "((\<forall>k<length t. fst (run_unconditional ops (t ! k)
              (foldl (\<lambda>w i. snd (run_unconditional ops i w)) w (take k t))) = None) \<longrightarrow>
            App_init ops clock parse prog w
              = (None, \<lparr>program = prog, conditional_backups = []\<rparr>,
                 foldl (\<lambda>w i. snd (run_unconditional ops i w)) w t)
            \<and> App_run fuel ops clock \<lparr>program = prog, conditional_backups = []\<rparr>
                (foldl (\<lambda>w i. snd (run_unconditional ops i w)) w t)
              = Some (None, foldl (\<lambda>w i. snd (run_unconditional ops i w)) w t)
            \<and> main fuel ops clock parse prog w
              = Some (None, foldl (\<lambda>w i. snd (run_unconditional ops i w)) w t))
         \<and> (k < length t
              \<and> (\<forall>i<k. fst (run_unconditional ops (t ! i)
                    (foldl (\<lambda>w i. snd (run_unconditional ops i w)) w (take i t))) = None)
              \<and> run_unconditional ops (t ! k)
                    (foldl (\<lambda>w i. snd (run_unconditional ops i w)) w (take k t)) = (Some e, w')
            \<longrightarrow> App_init ops clock parse prog w
                  = (Some e, \<lparr>program = prog, conditional_backups = []\<rparr>, w')
                \<and> main fuel ops clock parse prog w = Some (Some e, w'))"
proof -
  have init: "App_init ops clock parse prog w
                = parse_run_loop ops clock t \<lparr>program = prog, conditional_backups = []\<rparr> w"
    using assms(1) by (simp add: App_init_def App_parse_run_def)
  have returns: "App_init ops clock parse prog w
              = (None, \<lparr>program = prog, conditional_backups = []\<rparr>,
                 foldl (\<lambda>w i. snd (run_unconditional ops i w)) w t)"
    if "\<forall>k<length t. fst (run_unconditional ops (t ! k)
              (foldl (\<lambda>w i. snd (run_unconditional ops i w)) w (take k t))) = None"
    using init unconditional_loop_returns [OF assms(2) that] by simp
  have raises: "App_init ops clock parse prog w
                  = (Some e, \<lparr>program = prog, conditional_backups = []\<rparr>, w')"
    if "k < length t"
      and "\<forall>i<k. fst (run_unconditional ops (t ! i)
                    (foldl (\<lambda>w i. snd (run_unconditional ops i w)) w (take i t))) = None"
      and "run_unconditional ops (t ! k)
                    (foldl (\<lambda>w i. snd (run_unconditional ops i w)) w (take k t)) = (Some e, w')"
    using init unconditional_loop_raises [OF assms(2) that] by simp
  show ?thesis
    using returns raises by (simp add: main_def App_run_def)
qed

text \<open>
  Both instructions of \<open>program_a_b_zz_e\<close> are executed, in order: \<open>a\<close> is copied to
  \<open>b\<close>, then the missing source \<open>zz\<close> is reported. The load of \<open>program_d_f_a_b\<close>
  ends with the exception of its first instruction, and \<open>a\<close> is not copied to \<open>b\<close>.
\<close>

theorem unconditional_program_runs_in_order_witness:
  "dsl_parse program_a_b_zz_e = Inr [Inst ''a'' ''b'' None, Inst ''zz'' ''e'' None]
   \<and> unconditional (Inst ''a'' ''b'' None) \<and> unconditional (Inst ''zz'' ''e'' None)
   \<and> fst (run_unconditional toy_ops (Inst ''a'' ''b'' None) (new_world sample_fs)) = None
   \<and> fst (run_unconditional toy_ops (Inst ''zz'' ''e'' None)
            (snd (run_unconditional toy_ops (Inst ''a'' ''b'' None) (new_world sample_fs))))
       = None
   \<and> main 5 toy_ops sample_clock dsl_parse program_a_b_zz_e (new_world sample_fs)
     = Some (None,
         \<lparr>fs = (''b'', RegularFile ''A'') # sample_fs,
           logs = [(INFO, ''Running backup task''), (INFO, ''Backuping a to b''),
                   (DEBUG, ''Copying a file to b''), (DEBUG, ''Copy of a to b done''),
                   (INFO, ''Running backup task''),
                   (ERROR, ''Cannot backup zz to e because source does not exist'')],
           clock_reads = 0, slept = 0\<rparr>)
   \<and> dsl_parse program_d_f_a_b = Inr [Inst ''d'' ''f'' None, Inst ''a'' ''b'' None]
   \<and> unconditional (Inst ''d'' ''f'' None)
   \<and> run_unconditional toy_ops (Inst ''d'' ''f'' None) (new_world sample_fs)
     = (Some (OSError ''NotADirectoryError''),
         \<lparr>fs = sample_fs,
           logs = [(INFO, ''Running backup task''), (INFO, ''Backuping d to f''),
                   (DEBUG, ''d is a directory''), (DEBUG, ''d destination (f) exists removing'')],
           clock_reads = 0, slept = 0\<rparr>)
   \<and> App_init toy_ops sample_clock dsl_parse program_d_f_a_b (new_world sample_fs)
     = (Some (OSError ''NotADirectoryError''),
        \<lparr>program = program_d_f_a_b, conditional_backups = []\<rparr>,
         \<lparr>fs = sample_fs,
           logs = [(INFO, ''Running backup task''), (INFO, ''Backuping d to f''),
                   (DEBUG, ''d is a directory''), (DEBUG, ''d destination (f) exists removing'')],
           clock_reads = 0, slept = 0\<rparr>)"
proof -
  let ?t1 = "[Inst ''a'' ''b'' None, Inst ''zz'' ''e'' None]"
  let ?t2 = "[Inst ''d'' ''f'' None, Inst ''a'' ''b'' None]"
  let ?step = "\<lambda>w i. snd (run_unconditional toy_ops i w)"
  let ?w1 = "\<lparr>fs = (''b'', RegularFile ''A'') # sample_fs,
           logs = [(INFO, ''Running backup task''), (INFO, ''Backuping a to b''),
                   (DEBUG, ''Copying a file to b''), (DEBUG, ''Copy of a to b done'')],
           clock_reads = 0, slept = 0\<rparr>"
  let ?w2 = "\<lparr>fs = (''b'', RegularFile ''A'') # sample_fs,
           logs = [(INFO, ''Running backup task''), (INFO, ''Backuping a to b''),
                   (DEBUG, ''Copying a file to b''), (DEBUG, ''Copy of a to b done''),
                   (INFO, ''Running backup task''),
                   (ERROR, ''Cannot backup zz to e because source does not exist'')],
           clock_reads = 0, slept = 0\<rparr>"
  let ?wf = "\<lparr>fs = sample_fs,
           logs = [(INFO, ''Running backup task''), (INFO, ''Backuping d to f''),
                   (DEBUG, ''d is a directory''), (DEBUG, ''d destination (f) exists removing'')],
           clock_reads = 0, slept = 0\<rparr>"
  have r1: "run_unconditional toy_ops (Inst ''a'' ''b'' None) (new_world sample_fs) = (None, ?w1)"
    by (simp add: run_defs toy_defs)
  have r2: "run_unconditional toy_ops (Inst ''zz'' ''e'' None) ?w1 = (None, ?w2)"
    by (simp add: run_defs toy_defs)
  have r3: "run_unconditional toy_ops (Inst ''d'' ''f'' None) (new_world sample_fs)
              = (Some (OSError ''NotADirectoryError''), ?wf)"
    by (simp add: run_defs toy_defs)
  have u1: "\<forall>i\<in>set ?t1. unconditional i" and u2: "\<forall>i\<in>set ?t2. unconditional i"
    by simp_all
  have quiet: "\<forall>k<length ?t1. fst (run_unconditional toy_ops (?t1 ! k)
                  (foldl ?step (new_world sample_fs) (take k ?t1))) = None"
    using r1 r2 by (simp add: less_Suc_eq eval_nat_numeral)
  have m1: "main 5 toy_ops sample_clock dsl_parse program_a_b_zz_e (new_world sample_fs)
              = Some (None, ?w2)"
    using unconditional_program_runs_in_order
        [where parse = dsl_parse and prog = program_a_b_zz_e
           and t = "[Inst ''a'' ''b'' None, Inst ''zz'' ''e'' None]"
           and ops = toy_ops and w = "new_world sample_fs" and clock = sample_clock
           and fuel = 5,
         OF parse_a_b_zz_e u1, THEN conjunct1, THEN mp, OF quiet] r1 r2
    by simp
  have i2: "App_init toy_ops sample_clock dsl_parse program_d_f_a_b (new_world sample_fs)
              = (Some (OSError ''NotADirectoryError''),
                 \<lparr>program = program_d_f_a_b, conditional_backups = []\<rparr>, ?wf)"
    using unconditional_program_runs_in_order
        [where parse = dsl_parse and prog = program_d_f_a_b
           and t = "[Inst ''d'' ''f'' None, Inst ''a'' ''b'' None]"
           and ops = toy_ops and w = "new_world sample_fs" and clock = sample_clock
           and fuel = 5 and k = 0 and e = "OSError ''NotADirectoryError''"
           and w' = "\<lparr>fs = sample_fs,
             logs = [(INFO, ''Running backup task''), (INFO, ''Backuping d to f''),
                     (DEBUG, ''d is a directory''),
                     (DEBUG, ''d destination (f) exists removing'')],
             clock_reads = 0, slept = 0\<rparr>",
         OF parse_d_f_a_b u2, THEN conjunct2] r3
    by simp
  show ?thesis
    using parse_a_b_zz_e parse_d_f_a_b r1 r2 r3 m1 i2 by simp
qed

text \<open>
  Claim C4 as it is written fails: \<open>program_d_f_a_b\<close> has two unconditional statements;
  the execution of the first one raises, because \<open>f\<close> is a regular file, and the second
  one is never executed.
\<close>

theorem unconditional_program_counterexample:
  "dsl_parse program_d_f_a_b
     = Inr [Inst ''d'' ''f'' None, Inst ''a'' ''b'' None]
   \<and> main 5 toy_ops sample_clock dsl_parse program_d_f_a_b
        (new_world sample_fs)
     = Some (Some (OSError ''NotADirectoryError''),
         \<lparr>fs = sample_fs,
           logs = [(INFO, ''Running backup task''), (INFO, ''Backuping d to f''),
                   (DEBUG, ''d is a directory''), (DEBUG, ''d destination (f) exists removing'')],
           clock_reads = 0, slept = 0\<rparr>)"
  by (simp add: parse_d_f_a_b run_defs toy_defs)

end
